theory Spec2Isabelle
  imports Main
begin

section \<open>JavaScript strings\<close>

text \<open>
  A string is a list of characters; one \<^typ>\<open>char\<close> stands for one UTF-16 code unit below
  256, which covers every literal the analyzer compares with. The functions below are the
  string methods the analyzer calls, named after them.
\<close>

text \<open>
  White space as \<^verbatim>\<open>trim\<close> and the regular expression class \<^verbatim>\<open>\s\<close> see it, among
  the code units below 256: TAB, LF, VT, FF, CR, SPACE and NO-BREAK SPACE.
\<close>

definition is_ws :: "char \<Rightarrow> bool" where
  "is_ws c =
     (c \<in> set [CHR 0x09, CHR 0x0A, CHR 0x0B, CHR 0x0C, CHR 0x0D, CHR 0x20, CHR 0xA0])"

definition trim :: "string \<Rightarrow> string" where
  "trim s = rev (dropWhile is_ws (rev (dropWhile is_ws s)))"

fun startsWith :: "string \<Rightarrow> string \<Rightarrow> bool" where
  "startsWith s [] = True"
| "startsWith [] (p # ps) = False"
| "startsWith (c # cs) (p # ps) = (c = p \<and> startsWith cs ps)"

text \<open>The position of the first occurrence of \<open>p\<close> in \<open>s\<close>, if there is one.\<close>

fun indexOf :: "string \<Rightarrow> string \<Rightarrow> nat option" where
  "indexOf [] p = (if p = [] then Some 0 else None)"
| "indexOf (c # cs) p =
     (if startsWith (c # cs) p then Some 0 else map_option Suc (indexOf cs p))"

definition includes_str :: "string \<Rightarrow> string \<Rightarrow> bool" where
  "includes_str s p = (indexOf s p \<noteq> None)"

text \<open>
  \<^verbatim>\<open>s.replace(p, r)\<close> with a string pattern replaces the first occurrence only, wherever
  it stands.
\<close>

definition replace_str :: "string \<Rightarrow> string \<Rightarrow> string \<Rightarrow> string" where
  "replace_str s p r =
     (case indexOf s p of
        None \<Rightarrow> s
      | Some i \<Rightarrow> take i s @ r @ drop (i + length p) s)"

lemma startsWith_length: "startsWith s p \<Longrightarrow> length p \<le> length s"
  by (induction s p rule: startsWith.induct) auto

lemma indexOf_bound: "indexOf s p = Some i \<Longrightarrow> i + length p \<le> length s"
proof (induction s arbitrary: i)
  case Nil
  then show ?case by (simp split: if_splits)
next
  case (Cons c cs)
  show ?case
  proof (cases "startsWith (c # cs) p")
    case True
    with Cons.prems startsWith_length [OF True] show ?thesis by simp
  next
    case False
    with Cons show ?thesis by auto
  qed
qed

text \<open>
  \<^verbatim>\<open>s.split(sep)\<close>: the pieces between the occurrences of the separator, found from left
  to right; an empty separator gives the single code units.
\<close>

function split_str :: "string \<Rightarrow> string \<Rightarrow> string list" where
  "split_str s sep =
     (if sep = [] then map (\<lambda>c. [c]) s
      else (case indexOf s sep of
              None \<Rightarrow> [s]
            | Some i \<Rightarrow> take i s # split_str (drop (i + length sep) s) sep))"
  by pat_completeness auto
termination
proof (relation "measure (\<lambda>(s, sep). length s)", goal_cases)
  case 1
  show ?case by simp
next
  case (2 s sep i)
  from indexOf_bound [OF 2(2)] 2(1) show ?case
    by (cases sep) auto
qed

declare split_str.simps [simp del]

definition toLowerCase_char :: "char \<Rightarrow> char" where
  "toLowerCase_char c =
     (let n = (of_char c :: nat)
      in if (65 \<le> n \<and> n \<le> 90) \<or> (192 \<le> n \<and> n \<le> 222 \<and> n \<noteq> 215)
         then char_of (n + 32) else c)"

definition toLowerCase :: "string \<Rightarrow> string" where
  "toLowerCase s = map toLowerCase_char s"

text \<open>
  A number inside a template literal, for the integers below \<open>10\<^sup>2\<^sup>1\<close> in absolute value:
  JavaScript prints these with all their decimal digits, and a sign when negative. The one
  number the analyzer prints this way is a commit count, the length of a page of at most
  100 commits. From \<open>10\<^sup>2\<^sup>1\<close> on JavaScript prints a number in exponent form; that form
  is not modelled, and the digits below are not what JavaScript prints there.
\<close>

function show_nat :: "nat \<Rightarrow> string" where
  "show_nat n =
     (if n < 10 then [char_of (48 + n)]
      else show_nat (n div 10) @ [char_of (48 + n mod 10)])"
  by pat_completeness auto
termination
  by (relation "measure id") auto

declare show_nat.simps [simp del]

definition show_int :: "int \<Rightarrow> string" where
  "show_int i = (if i < 0 then CHR ''-'' # show_nat (nat (- i)) else show_nat (nat i))"

section \<open>Errors\<close>

text \<open>
  Every failure in the analyzer is a JavaScript \<^verbatim>\<open>Error\<close> with a message; a function that
  can throw returns \<open>Inl\<close> of the error or \<open>Inr\<close> of its value.
\<close>

datatype error = Error string

fun message :: "error \<Rightarrow> string" where
  "message (Error msg) = msg"

section \<open>The URL parser\<close>

record repo_ref =
  owner :: string
  repo :: string

definition not_slash :: "char \<Rightarrow> bool" where
  "not_slash c = (c \<noteq> CHR ''/'')"

text \<open>
  The regular expression \<^verbatim>\<open>/github\.com\/([^\/]+)\/([^\/]+)/\<close> tried at the start of
  \<open>s\<close>. The first group is greedy and must be followed by a slash, so it is the whole run
  up to the next slash; the second group is the whole run after that slash. Both runs
  must be non-empty.
\<close>

definition match_here :: "string \<Rightarrow> (string \<times> string) option" where
  "match_here s =
     (if startsWith s ''github.com/'' then
        (let rest = drop (length ''github.com/'') s;
             g1 = takeWhile not_slash rest
         in if g1 = [] then None
            else (case dropWhile not_slash rest of
                    [] \<Rightarrow> None
                  | slash # rest2 \<Rightarrow>
                      (let g2 = takeWhile not_slash rest2
                       in if g2 = [] then None else Some (g1, g2))))
      else None)"

text \<open>\<^verbatim>\<open>url.match(re)\<close> searches from the left for the first position where it matches.\<close>

fun match_url :: "string \<Rightarrow> (string \<times> string) option" where
  "match_url [] = match_here []"
| "match_url (c # cs) =
     (case match_here (c # cs) of
        Some groups \<Rightarrow> Some groups
      | None \<Rightarrow> match_url cs)"

definition parseRepoUrl :: "string \<Rightarrow> error + repo_ref" where
  "parseRepoUrl url =
     (case match_url url of
        None \<Rightarrow> Inl (Error ''Invalid GitHub URL'')
      | Some (g1, g2) \<Rightarrow> Inr \<lparr>owner = g1, repo = replace_str g2 ''.git'' ''''\<rparr>)"

section \<open>The metrics record\<close>

text \<open>
  \<^verbatim>\<open>fetchMetrics\<close> fills one object, key by key, and \<^verbatim>\<open>calculateScore\<close> and
  \<^verbatim>\<open>generateAIInsights\<close> read it. The fields are listed in the order in which
  \<^verbatim>\<open>fetchMetrics\<close> assigns them. JavaScript numbers that hold counts are integers here;
  the scorer itself does not care about their sign, so nothing is assumed about it in the
  type.
\<close>

record metrics =
  name :: string
  stars :: int
  forks :: int
  watchers :: int
  open_issues :: int
  primary_language :: string
  languages :: "string list"
  has_readme :: bool
  readme_length :: int
  total_commits :: int
  recent_commits :: int
  branch_count :: int
  total_prs :: int
  has_tests :: bool
  has_cicd :: bool

section \<open>The metrics fetcher\<close>

text \<open>
  The hosting API is outside the program. For one repository, \<^verbatim>\<open>fetchMetrics\<close> makes each
  of its calls once, so the outcomes of the calls are given: a record with one outcome per
  call, each either the error the call throws or the data it returns. Of the returned data
  the record keeps what the fetcher reads.
\<close>

record repo_data =
  data_name :: string
  stargazers_count :: int
  forks_count :: int
  watchers_count :: int
  open_issues_count :: int
  language :: "string option"

text \<open>
  \<^verbatim>\<open>getContent\<close> returns an array of entries (here their names) for a directory and a
  single object for a file.
\<close>

datatype content = Listing "string list" | FileObject

record responses =
  repos_get :: "error + repo_data"
  repos_listLanguages :: "error + (string \<times> int) list"
  repos_getReadme :: "error + string"
  repos_listCommits :: "error + int list"
  repos_listBranches :: "error + string list"
  pulls_list :: "error + string list"
  repos_getContent :: "string \<Rightarrow> error + content"

text \<open>
  In \<open>responses\<close>, the languages are the keys of the returned object with their byte
  counts, in the object's order; the README is the byte sequence that decoding
  \<^verbatim>\<open>readme.content\<close> from base64 yields; a commit is the time value of its author date;
  branches and pull requests are lists of names and titles, of which only the length is
  read.
\<close>

definition testIndicators :: "string list" where
  "testIndicators = [''test'', ''tests'', ''__tests__'', ''spec'', ''specs'']"

text \<open>
  \<^verbatim>\<open>checkForTests\<close>: any failure inside the \<^verbatim>\<open>try\<close>, also the \<^verbatim>\<open>TypeError\<close> of calling
  \<^verbatim>\<open>some\<close> on a file object, gives \<^verbatim>\<open>false\<close>.
\<close>

definition checkForTests :: "responses \<Rightarrow> bool" where
  "checkForTests api =
     (case repos_getContent api '''' of
        Inl error \<Rightarrow> False
      | Inr FileObject \<Rightarrow> False
      | Inr (Listing contents) \<Rightarrow>
          list_ex (\<lambda>item. list_ex (\<lambda>indicator. includes_str (toLowerCase item) indicator)
                            testIndicators)
            contents)"

definition cicdPaths :: "string list" where
  "cicdPaths =
     [''.github/workflows'', ''.gitlab-ci.yml'', ''.travis.yml'', ''Jenkinsfile'',
      ''.circleci/config.yml'']"

text \<open>The \<^verbatim>\<open>for\<close> loop of \<^verbatim>\<open>checkForCICD\<close> over the paths still to probe.\<close>

fun probe_paths :: "responses \<Rightarrow> string list \<Rightarrow> bool" where
  "probe_paths api [] = False"
| "probe_paths api (path # paths) =
     (case repos_getContent api path of
        Inr found \<Rightarrow> True
      | Inl error \<Rightarrow> probe_paths api paths)"

definition checkForCICD :: "responses \<Rightarrow> bool" where
  "checkForCICD api = probe_paths api cicdPaths"

text \<open>
  The body of the outer \<^verbatim>\<open>try\<close> of \<^verbatim>\<open>fetchMetrics\<close>. The calls for the repository, the
  languages, the commits and the branches stand directly in it, so their errors leave the
  body; the README call and the pull-request call have a \<^verbatim>\<open>try\<close> of their own.
  \<open>threeMonthsAgo\<close> is the time value the code computes from the clock.
\<close>

definition fetch_body :: "int \<Rightarrow> responses \<Rightarrow> error + metrics" where
  "fetch_body threeMonthsAgo api =
     (case repos_get api of
        Inl error \<Rightarrow> Inl error
      | Inr repoData \<Rightarrow>
     (case repos_listLanguages api of
        Inl error \<Rightarrow> Inl error
      | Inr langs \<Rightarrow>
     (let (readme_found, readme_len) =
            (case repos_getReadme api of
               Inr readme \<Rightarrow> (True, int (length readme))
             | Inl error \<Rightarrow> (False, 0))
      in
     (case repos_listCommits api of
        Inl error \<Rightarrow> Inl error
      | Inr commits \<Rightarrow>
     (case repos_listBranches api of
        Inl error \<Rightarrow> Inl error
      | Inr branches \<Rightarrow>
     (let prs_len =
            (case pulls_list api of
               Inr prs \<Rightarrow> int (length prs)
             | Inl error \<Rightarrow> 0)
      in Inr \<lparr>name = data_name repoData,
              stars = stargazers_count repoData,
              forks = forks_count repoData,
              watchers = watchers_count repoData,
              open_issues = open_issues_count repoData,
              primary_language =
                (case language repoData of
                   None \<Rightarrow> ''Unknown''
                 | Some l \<Rightarrow> if l = [] then ''Unknown'' else l),
              languages = map fst langs,
              has_readme = readme_found,
              readme_length = readme_len,
              total_commits = int (length commits),
              recent_commits =
                int (length (filter (\<lambda>date. date > threeMonthsAgo) commits)),
              branch_count = int (length branches),
              total_prs = prs_len,
              has_tests = checkForTests api,
              has_cicd = checkForCICD api\<rparr>))))))"

definition fetchMetrics :: "int \<Rightarrow> responses \<Rightarrow> error + metrics" where
  "fetchMetrics threeMonthsAgo api =
     (case fetch_body threeMonthsAgo api of
        Inr m \<Rightarrow> Inr m
      | Inl error \<Rightarrow> Inl (Error (''Failed to fetch metrics: '' @ message error)))"

section \<open>The scorer\<close>

text \<open>
  \<^verbatim>\<open>calculateScore\<close> keeps one local variable \<^verbatim>\<open>score\<close> and passes seven blocks over
  it, each headed by a comment in the source. Every block is a function from the score
  so far to the score after the block.
\<close>

definition add_readme :: "metrics \<Rightarrow> int \<Rightarrow> int" where
  "add_readme m score =
     (if has_readme m then
        (if readme_length m > 1000 then score + 20
         else if readme_length m > 500 then score + 15
         else score + 10)
      else score)"

definition add_commits :: "metrics \<Rightarrow> int \<Rightarrow> int" where
  "add_commits m score =
     (if total_commits m \<ge> 100 then score + 25
      else if total_commits m \<ge> 50 then score + 20
      else if total_commits m \<ge> 20 then score + 15
      else score + max 5 (total_commits m div 2))"

definition add_recent :: "metrics \<Rightarrow> int \<Rightarrow> int" where
  "add_recent m score =
     (if recent_commits m > 20 then score + 15
      else if recent_commits m > 10 then score + 10
      else if recent_commits m > 0 then score + 5
      else score)"

definition add_tests :: "metrics \<Rightarrow> int \<Rightarrow> int" where
  "add_tests m score = (if has_tests m then score + 20 else score)"

definition add_cicd :: "metrics \<Rightarrow> int \<Rightarrow> int" where
  "add_cicd m score = (if has_cicd m then score + 10 else score)"

definition add_branches :: "metrics \<Rightarrow> int \<Rightarrow> int" where
  "add_branches m score =
     (if branch_count m > 3 then score + 5
      else if branch_count m > 1 then score + 3
      else score)"

definition add_prs :: "metrics \<Rightarrow> int \<Rightarrow> int" where
  "add_prs m score =
     (if total_prs m > 10 then score + 5
      else if total_prs m > 0 then score + 3
      else score)"

definition calculateScore :: "metrics \<Rightarrow> int" where
  "calculateScore m =
     (let score = 0;
          score = add_readme m score;
          score = add_commits m score;
          score = add_recent m score;
          score = add_tests m score;
          score = add_cicd m score;
          score = add_branches m score;
          score = add_prs m score
      in min 100 score)"

section \<open>The insight generator\<close>

record insight =
  summary :: string
  roadmap :: "string list"

text \<open>
  \<^verbatim>\<open>line.replace(/^-\s*/, '')\<close>: the expression is anchored at the start of the line as it
  is, so it removes a hyphen in the first position and the white space after it, and
  leaves every other line alone.
\<close>

definition strip_bullet :: "string \<Rightarrow> string" where
  "strip_bullet line =
     (case line of
        [] \<Rightarrow> []
      | c # cs \<Rightarrow> if c = CHR ''-'' then dropWhile is_ws cs else line)"

definition newline :: string where
  "newline = [CHR 0x0A]"

text \<open>
  The statements of the \<^verbatim>\<open>try\<close> block after the call, on the text of the reply.
  \<^verbatim>\<open>parts[0]\<close> of an empty array would be \<^verbatim>\<open>undefined\<close> and the call of \<^verbatim>\<open>replace\<close>
  on it a \<^verbatim>\<open>TypeError\<close>; \<^verbatim>\<open>parts[1]\<close> is used when it is there and not the empty string.
\<close>

definition parse_reply :: "string \<Rightarrow> error + insight" where
  "parse_reply responseText =
     (let parts = split_str responseText ''ROADMAP:''
      in case parts of
           [] \<Rightarrow> Inl (Error ''Cannot read properties of undefined'')
         | part0 # others \<Rightarrow>
             (let summary_text = trim (replace_str part0 ''SUMMARY:'' '''');
                  roadmapText =
                    (case others of
                       [] \<Rightarrow> ''''
                     | part1 # rest \<Rightarrow> if part1 \<noteq> '''' then trim part1 else '''');
                  items =
                    filter (\<lambda>item. length item > 0)
                      (map (\<lambda>line. trim (strip_bullet line))
                         (filter (\<lambda>line. startsWith (trim line) ''-'')
                            (split_str roadmapText newline)))
              in Inr \<lparr>summary = summary_text, roadmap = items\<rparr>))"

text \<open>The \<^verbatim>\<open>catch\<close> block: a summary chosen by the score and six roadmap items.\<close>

definition fallback :: "metrics \<Rightarrow> int \<Rightarrow> insight" where
  "fallback m sc =
     \<lparr>summary =
        (if sc > 70 then
           ''Repository demonstrates strong development practices with ''
           @ show_int (total_commits m) @ '' commits and ''
           @ (if has_tests m then ''testing'' else ''active development'') @ ''.''
         else if sc > 40 then
           ''Repository shows moderate development practices. ''
           @ (if has_readme m then ''Has documentation'' else ''Needs documentation'')
           @ '' and ''
           @ (if has_tests m then ''includes tests'' else ''lacks tests'') @ ''.''
         else
           ''Repository is in early stages. Focus on establishing ''
           @ (if \<not> has_readme m then ''documentation, '' else '''')
           @ (if \<not> has_tests m then ''testing, '' else '''')
           @ ''and consistent development practices.''),
      roadmap =
        [if \<not> has_readme m
           then ''Add comprehensive README with setup instructions and project overview''
           else ''Expand README with usage examples and contribution guidelines'',
         if \<not> has_tests m
           then ''Implement unit tests for core functionality''
           else ''Increase test coverage to 80%+'',
         if \<not> has_cicd m
           then ''Set up CI/CD pipeline using GitHub Actions''
           else ''Enhance CI/CD with automated deployments'',
         if recent_commits m < 10
           then ''Establish regular commit schedule (weekly minimum)''
           else ''Maintain consistent commit patterns'',
         if branch_count m \<le> 1
           then ''Adopt feature branch workflow (main + feature branches)''
           else ''Continue effective branch management'',
         ''Add code documentation and inline comments for complex logic'']\<rparr>"

text \<open>
  The text-generation service is outside the program. The prompt is a fixed function of
  the metrics and the score, so the outcome of the one call (the error thrown by
  \<^verbatim>\<open>generateContent\<close> or by \<^verbatim>\<open>response.text()\<close>, or the text of the reply) is given as
  a function of the metrics and the score.
\<close>

definition generateAIInsights ::
  "(metrics \<Rightarrow> int \<Rightarrow> error + string) \<Rightarrow> metrics \<Rightarrow> int \<Rightarrow> insight" where
  "generateAIInsights generateContent m sc =
     (case (case generateContent m sc of
              Inl error \<Rightarrow> Inl error
            | Inr responseText \<Rightarrow> parse_reply responseText) of
        Inr result \<Rightarrow> result
      | Inl error \<Rightarrow> fallback m sc)"

section \<open>The orchestrator\<close>

text \<open>
  What \<^verbatim>\<open>analyzeRepository\<close> reads from outside: the hosting API for an owner and a
  repository, the clock (as the time value three months back), and the text-generation
  service.
\<close>

record environment =
  octokit :: "string \<Rightarrow> string \<Rightarrow> responses"
  three_months_ago :: int
  model_reply :: "metrics \<Rightarrow> int \<Rightarrow> error + string"

text \<open>The result object \<^verbatim>\<open>{score, summary, roadmap, metrics}\<close>.\<close>

record analysis = insight +
  score :: int
  metrics :: metrics

definition analyze_body :: "environment \<Rightarrow> string \<Rightarrow> error + analysis" where
  "analyze_body env repoUrl =
     (case parseRepoUrl repoUrl of
        Inl error \<Rightarrow> Inl error
      | Inr ref \<Rightarrow>
     (case fetchMetrics (three_months_ago env) (octokit env (owner ref) (repo ref)) of
        Inl error \<Rightarrow> Inl error
      | Inr m \<Rightarrow>
     (let sc = calculateScore m;
          ins = generateAIInsights (model_reply env) m sc
      in Inr \<lparr>summary = summary ins, roadmap = roadmap ins, score = sc, metrics = m\<rparr>)))"

definition analyzeRepository :: "environment \<Rightarrow> string \<Rightarrow> error + analysis" where
  "analyzeRepository env repoUrl =
     (case analyze_body env repoUrl of
        Inr result \<Rightarrow> Inr result
      | Inl error \<Rightarrow> Inl (Error (''Analysis failed: '' @ message error)))"

section \<open>The dimension table of the specification\<close>

text \<open>
  The seven rules as the specification's table words them, each read top to bottom, first
  match wins. They take the record only; the code's running total does not appear.

  The README row reads \<^verbatim>\<open>length>1000 -> 20; >500 -> 15; else (has_readme true) -> 10;
  absent -> 0\<close>. Its last case is the record without a README and its first three cases,
  as the parenthesis of the third says, are the cases of a record with one; so each of the
  three asks for the README, in the row's order.
\<close>

definition rule_readme :: "metrics \<Rightarrow> int" where
  "rule_readme m =
     (if has_readme m \<and> readme_length m > 1000 then 20
      else if has_readme m \<and> readme_length m > 500 then 15
      else if has_readme m then 10
      else 0)"

definition rule_commit_volume :: "metrics \<Rightarrow> int" where
  "rule_commit_volume m =
     (if total_commits m \<ge> 100 then 25
      else if total_commits m \<ge> 50 then 20
      else if total_commits m \<ge> 20 then 15
      else max 5 (total_commits m div 2))"

definition rule_recent_activity :: "metrics \<Rightarrow> int" where
  "rule_recent_activity m =
     (if recent_commits m > 20 then 15
      else if recent_commits m > 10 then 10
      else if recent_commits m > 0 then 5
      else 0)"

definition rule_tests :: "metrics \<Rightarrow> int" where
  "rule_tests m = (if has_tests m then 20 else 0)"

definition rule_cicd :: "metrics \<Rightarrow> int" where
  "rule_cicd m = (if has_cicd m then 10 else 0)"

definition rule_branch_usage :: "metrics \<Rightarrow> int" where
  "rule_branch_usage m =
     (if branch_count m > 3 then 5
      else if branch_count m > 1 then 3
      else 0)"

definition rule_pull_requests :: "metrics \<Rightarrow> int" where
  "rule_pull_requests m =
     (if total_prs m > 10 then 5
      else if total_prs m > 0 then 3
      else 0)"

definition rule_sum :: "metrics \<Rightarrow> int" where
  "rule_sum m =
     rule_readme m + rule_commit_volume m + rule_recent_activity m + rule_tests m
     + rule_cicd m + rule_branch_usage m + rule_pull_requests m"

text \<open>
  The fields that the scorer reads. Two records that agree on them are the same input to
  the scorer.
\<close>

definition same_scored_fields :: "metrics \<Rightarrow> metrics \<Rightarrow> bool" where
  "same_scored_fields m' m =
     (has_readme m' = has_readme m \<and> readme_length m' = readme_length m
      \<and> total_commits m' = total_commits m \<and> recent_commits m' = recent_commits m
      \<and> has_tests m' = has_tests m \<and> has_cicd m' = has_cicd m
      \<and> branch_count m' = branch_count m \<and> total_prs m' = total_prs m)"

text \<open>The two records of the specification's end-to-end scenarios.\<close>

definition scenario_full :: metrics where
  "scenario_full =
     \<lparr>name = ''demo'', stars = 0, forks = 0, watchers = 0, open_issues = 0,
      primary_language = ''Unknown'', languages = [],
      has_readme = True, readme_length = 1500, total_commits = 120, recent_commits = 25,
      branch_count = 5, total_prs = 15, has_tests = True, has_cicd = True\<rparr>"

definition scenario_empty :: metrics where
  "scenario_empty =
     \<lparr>name = ''demo'', stars = 0, forks = 0, watchers = 0, open_issues = 0,
      primary_language = ''Unknown'', languages = [],
      has_readme = False, readme_length = 0, total_commits = 0, recent_commits = 0,
      branch_count = 0, total_prs = 0, has_tests = False, has_cicd = False\<rparr>"

text \<open>A record on the three boundaries of the scorer at once.\<close>

definition boundary_record :: metrics where
  "boundary_record =
     scenario_empty\<lparr>has_readme := True, readme_length := 1000, branch_count := 1\<rparr>"

section \<open>The reply format of the specification\<close>

text \<open>
  The words of the specification about a reply: a line is hyphen-bulleted when it starts
  with a hyphen once trimmed; the text before the marker \<^verbatim>\<open>ROADMAP:\<close> is what stands in
  front of its first occurrence (the whole reply when there is none), and the text after
  the marker is what follows that occurrence.
\<close>

definition bulleted :: "string \<Rightarrow> bool" where
  "bulleted line = startsWith (trim line) ''-''"

definition pre_marker :: "string \<Rightarrow> string" where
  "pre_marker reply =
     (case indexOf reply ''ROADMAP:'' of
        None \<Rightarrow> reply
      | Some i \<Rightarrow> take i reply)"

definition post_marker :: "string \<Rightarrow> string" where
  "post_marker reply =
     (case indexOf reply ''ROADMAP:'' of
        None \<Rightarrow> ''''
      | Some i \<Rightarrow> drop (i + length ''ROADMAP:'') reply)"

section \<open>Example inputs\<close>

text \<open>
  A repository for which every call succeeds, and variants of it in which some calls fail.
\<close>

definition api_up :: responses where
  "api_up =
     \<lparr>repos_get = Inr \<lparr>data_name = ''Hello-World'', stargazers_count = 7, forks_count = 2,
                        watchers_count = 7, open_issues_count = 1, language = None\<rparr>,
      repos_listLanguages = Inr [(''JavaScript'', 1200), (''HTML'', 300)],
      repos_getReadme = Inr ''# Hello'',
      repos_listCommits = Inr [100, 2000, 3000],
      repos_listBranches = Inr [''main'', ''dev''],
      pulls_list = Inr [''Fix typo''],
      repos_getContent =
        (\<lambda>path. if path = '''' then Inr (Listing [''src'', ''Tests'', ''README.md''])
                else if path = ''.travis.yml'' then Inr FileObject
                else Inl (Error ''Not Found''))\<rparr>"

definition api_languages_down :: responses where
  "api_languages_down = api_up\<lparr>repos_listLanguages := Inl (Error ''rate limit exceeded'')\<rparr>"

definition api_readme_prs_down :: responses where
  "api_readme_prs_down =
     api_up\<lparr>repos_getReadme := Inl (Error ''Not Found''),
            pulls_list := Inl (Error ''Server Error'')\<rparr>"

definition api_probes_down :: responses where
  "api_probes_down =
     api_readme_prs_down\<lparr>repos_getContent := (\<lambda>path. Inl (Error ''Not Found''))\<rparr>"

definition env_up :: environment where
  "env_up =
     \<lparr>octokit = (\<lambda>ow rp. if ow = ''octocat'' then api_up else api_languages_down),
      three_months_ago = 1000,
      model_reply = (\<lambda>m sc. Inl (Error ''API key not valid''))\<rparr>"

text \<open>Replies of the text-generation service.\<close>

definition reply_indented :: string where
  "reply_indented =
     ''SUMMARY: ok'' @ newline @ ''ROADMAP:'' @ newline
     @ ''- first'' @ newline @ ''  - second''"

definition reply_five :: string where
  "reply_five =
     ''SUMMARY: Solid project.'' @ newline @ ''ROADMAP:'' @ newline
     @ ''- add tests'' @ newline @ ''- add CI'' @ newline @ ''- write docs'' @ newline
     @ ''- tag releases'' @ newline @ ''- review issues'' @ newline"

definition reply_no_marker :: string where
  "reply_no_marker = ''SUMMARY: Looks fine. Nothing to add.''"

definition reply_no_bullets :: string where
  "reply_no_bullets =
     ''SUMMARY: Looks fine.'' @ newline @ ''ROADMAP:'' @ newline
     @ ''1. add tests'' @ newline @ ''2. add CI''"

section \<open>Properties of the scorer\<close>

lemmas add_defs =
  add_readme_def add_commits_def add_recent_def add_tests_def add_cicd_def
  add_branches_def add_prs_def

lemmas rule_defs =
  rule_readme_def rule_commit_volume_def rule_recent_activity_def rule_tests_def
  rule_cicd_def rule_branch_usage_def rule_pull_requests_def

lemma add_readme_delta: "add_readme m s = s + rule_readme m"
  by (simp add: add_readme_def rule_readme_def)

lemma add_commits_delta: "add_commits m s = s + rule_commit_volume m"
  by (simp add: add_commits_def rule_commit_volume_def)

lemma add_recent_delta: "add_recent m s = s + rule_recent_activity m"
  by (simp add: add_recent_def rule_recent_activity_def)

lemma add_tests_delta: "add_tests m s = s + rule_tests m"
  by (simp add: add_tests_def rule_tests_def)

lemma add_cicd_delta: "add_cicd m s = s + rule_cicd m"
  by (simp add: add_cicd_def rule_cicd_def)

lemma add_branches_delta: "add_branches m s = s + rule_branch_usage m"
  by (simp add: add_branches_def rule_branch_usage_def)

lemma add_prs_delta: "add_prs m s = s + rule_pull_requests m"
  by (simp add: add_prs_def rule_pull_requests_def)

lemmas add_deltas =
  add_readme_delta add_commits_delta add_recent_delta add_tests_delta add_cicd_delta
  add_branches_delta add_prs_delta

lemma calculateScore_unfolded:
  "calculateScore m =
     min 100 (rule_readme m + rule_commit_volume m
              + rule_recent_activity m + rule_tests m + rule_cicd m
              + rule_branch_usage m + rule_pull_requests m)"
  by (simp add: calculateScore_def Let_def add_deltas)

lemma rule_bounds:
  "0 \<le> rule_readme m" "rule_readme m \<le> 20"
  "5 \<le> rule_commit_volume m" "rule_commit_volume m \<le> 25"
  "0 \<le> rule_recent_activity m" "rule_recent_activity m \<le> 15"
  "0 \<le> rule_tests m" "rule_tests m \<le> 20"
  "0 \<le> rule_cicd m" "rule_cicd m \<le> 10"
  "0 \<le> rule_branch_usage m" "rule_branch_usage m \<le> 5"
  "0 \<le> rule_pull_requests m" "rule_pull_requests m \<le> 5"
  by (auto simp add: rule_defs)

lemma rule_sum_same_fields: "same_scored_fields m' m \<Longrightarrow> rule_sum m' = rule_sum m"
  by (simp add: same_scored_fields_def rule_sum_def rule_defs)

text \<open>
  Claim C1. For every metrics record, whatever integers and booleans its fields hold, the
  score lies between 0 and 100 and is the sum of the seven dimension rules of the
  specification's table, cut off at 100 by the final minimum. The scorer is a function of
  the record alone, and of the record it reads the eight scored fields only: two records
  that agree on these, so also one record given twice, get the same score.
\<close>

theorem calculateScore_table:
  "0 \<le> calculateScore m \<and> calculateScore m \<le> 100
   \<and> calculateScore m = min 100 (rule_sum m)
   \<and> (\<forall>m'. same_scored_fields m' m \<longrightarrow> calculateScore m' = calculateScore m)"
proof -
  have eq: "calculateScore m = min 100 (rule_sum m)" for m
    by (simp add: calculateScore_unfolded rule_sum_def)
  have "0 \<le> rule_sum m"
    using rule_bounds [of m] by (simp add: rule_sum_def)
  with eq [of m] have range: "0 \<le> calculateScore m \<and> calculateScore m \<le> 100"
    by simp
  have "calculateScore m' = calculateScore m" if "same_scored_fields m' m" for m'
    using rule_sum_same_fields [OF that] by (simp add: eq)
  with range eq [of m] show ?thesis by simp
qed

theorem calculateScore_table_witness:
  "same_scored_fields (scenario_full\<lparr>name := ''other'', stars := 42\<rparr>) scenario_full
   \<and> calculateScore (scenario_full\<lparr>name := ''other'', stars := 42\<rparr>) = 100
   \<and> calculateScore scenario_full = 100
   \<and> rule_sum scenario_full = 100"
proof -
  have same:
    "same_scored_fields (scenario_full\<lparr>name := ''other'', stars := 42\<rparr>) scenario_full"
    by (simp add: same_scored_fields_def)
  have sum: "rule_sum scenario_full = 100"
    by (simp add: rule_sum_def rule_defs scenario_full_def)
  from calculateScore_table [of scenario_full] sum
  have full: "calculateScore scenario_full = 100" by simp
  from calculateScore_table [of scenario_full] same full
  have "calculateScore (scenario_full\<lparr>name := ''other'', stars := 42\<rparr>) = 100"
    by simp
  with same full sum show ?thesis by simp
qed

text \<open>
  Claim C4. The boundary cases of the scorer, on the score itself. With no commits the
  commit dimension puts exactly 5 into the sum (the maximum of 5 and 0 div 2), not 0; with
  a README of length exactly 1000 the README dimension puts in 15, not 20; with a single
  branch the branch dimension puts in 0, not 3. The other dimensions put in what their
  rules say, so on the record that is on all three boundaries and scores nothing else the
  score is 5 + 15 + 0 = 20; one character more in the README makes it 25, one branch more
  23, and without the README it is the 5 of the commit dimension.
\<close>

theorem scorer_boundaries:
  "(total_commits m = 0 \<longrightarrow>
      calculateScore m =
        min 100 (rule_readme m + 5 + rule_recent_activity m + rule_tests m + rule_cicd m
                 + rule_branch_usage m + rule_pull_requests m)
      \<and> add_commits m s = s + 5 \<and> max 5 (total_commits m div 2) = 5)
   \<and> (has_readme m \<and> readme_length m = 1000 \<longrightarrow>
      calculateScore m =
        min 100 (15 + rule_commit_volume m + rule_recent_activity m + rule_tests m
                 + rule_cicd m + rule_branch_usage m + rule_pull_requests m)
      \<and> add_readme m s = s + 15)
   \<and> (branch_count m = 1 \<longrightarrow>
      calculateScore m =
        min 100 (rule_readme m + rule_commit_volume m + rule_recent_activity m
                 + rule_tests m + rule_cicd m + 0 + rule_pull_requests m)
      \<and> add_branches m s = s)
   \<and> calculateScore boundary_record = 20
   \<and> calculateScore (boundary_record\<lparr>readme_length := 1001\<rparr>) = 25
   \<and> calculateScore (boundary_record\<lparr>branch_count := 2\<rparr>) = 23
   \<and> calculateScore (boundary_record\<lparr>has_readme := False\<rparr>) = 5"
proof -
  have commits: "calculateScore m =
        min 100 (rule_readme m + 5 + rule_recent_activity m + rule_tests m + rule_cicd m
                 + rule_branch_usage m + rule_pull_requests m)
      \<and> add_commits m s = s + 5 \<and> max 5 (total_commits m div 2) = 5"
    if "total_commits m = 0"
    using that by (simp add: calculateScore_unfolded rule_commit_volume_def add_commits_def)
  have readme: "calculateScore m =
        min 100 (15 + rule_commit_volume m + rule_recent_activity m + rule_tests m
                 + rule_cicd m + rule_branch_usage m + rule_pull_requests m)
      \<and> add_readme m s = s + 15"
    if "has_readme m \<and> readme_length m = 1000"
    using that by (simp add: calculateScore_unfolded rule_readme_def add_readme_def)
  have branches: "calculateScore m =
        min 100 (rule_readme m + rule_commit_volume m + rule_recent_activity m
                 + rule_tests m + rule_cicd m + 0 + rule_pull_requests m)
      \<and> add_branches m s = s"
    if "branch_count m = 1"
    using that by (simp add: calculateScore_unfolded rule_branch_usage_def add_branches_def)
  have closed: "calculateScore boundary_record = 20
   \<and> calculateScore (boundary_record\<lparr>readme_length := 1001\<rparr>) = 25
   \<and> calculateScore (boundary_record\<lparr>branch_count := 2\<rparr>) = 23
   \<and> calculateScore (boundary_record\<lparr>has_readme := False\<rparr>) = 5"
    by (simp add: calculateScore_def add_defs boundary_record_def scenario_empty_def)
  from commits readme branches closed show ?thesis by blast
qed

theorem scorer_boundaries_witness:
  "total_commits boundary_record = 0
   \<and> has_readme boundary_record \<and> readme_length boundary_record = 1000
   \<and> branch_count boundary_record = 1
   \<and> calculateScore boundary_record = 20
   \<and> calculateScore boundary_record =
        min 100 (rule_readme boundary_record + 5 + rule_recent_activity boundary_record
                 + rule_tests boundary_record + rule_cicd boundary_record
                 + rule_branch_usage boundary_record + rule_pull_requests boundary_record)
   \<and> add_commits boundary_record 0 = 5
   \<and> add_readme boundary_record 0 = 15
   \<and> add_branches boundary_record 0 = 0"
proof -
  have on: "total_commits boundary_record = 0"
    "has_readme boundary_record \<and> readme_length boundary_record = 1000"
    "branch_count boundary_record = 1"
    by (simp_all add: boundary_record_def scenario_empty_def)
  from scorer_boundaries [of boundary_record 0] on show ?thesis
    by simp
qed

text \<open>
  Claim C8. The two end-to-end scenarios. The first record scores
  20 + 25 + 15 + 20 + 10 + 5 + 5 = 100, the second 0 + 5 + 0 + 0 + 0 + 0 + 0 = 5; the blocks
  add exactly these amounts, in this order, whatever the fields are that the scorer does
  not read.
\<close>

theorem scenario_scores:
  "calculateScore (scenario_full\<lparr>name := n, stars := a, forks := b, watchers := c,
       open_issues := d, primary_language := l, languages := ls\<rparr>) = 100
   \<and> map (\<lambda>block. block scenario_full 0)
        [add_readme, add_commits, add_recent, add_tests, add_cicd, add_branches, add_prs]
      = [20, 25, 15, 20, 10, 5, 5]
   \<and> calculateScore (scenario_empty\<lparr>name := n, stars := a, forks := b, watchers := c,
       open_issues := d, primary_language := l, languages := ls\<rparr>) = 5
   \<and> map (\<lambda>block. block scenario_empty 0)
        [add_readme, add_commits, add_recent, add_tests, add_cicd, add_branches, add_prs]
      = [0, 5, 0, 0, 0, 0, 0]"
  by (simp add: calculateScore_def add_defs scenario_full_def scenario_empty_def)

text \<open>
  Claim C10. The score is never below 5: the commit block adds
  max 5 (total_commits div 2), which is at least 5, when there are fewer than 20 commits,
  and at least 15 otherwise, and no block subtracts. So no record scores 0, 1, 2, 3 or 4.
\<close>

theorem calculateScore_at_least_5:
  "5 \<le> calculateScore m
   \<and> (if total_commits m < 20
       then add_commits m s = s + max 5 (total_commits m div 2)
            \<and> 5 \<le> max 5 (total_commits m div 2)
       else s + 15 \<le> add_commits m s)
   \<and> calculateScore m \<notin> {0, 1, 2, 3, 4}"
proof -
  have low: "5 \<le> calculateScore m"
    using rule_bounds [of m] by (simp add: calculateScore_unfolded)
  have commits: "if total_commits m < 20
       then add_commits m s = s + max 5 (total_commits m div 2)
            \<and> 5 \<le> max 5 (total_commits m div 2)
       else s + 15 \<le> add_commits m s"
    by (simp add: add_commits_def)
  from low have "calculateScore m \<notin> {0, 1, 2, 3, 4}" by auto
  with low commits show ?thesis by simp
qed

section \<open>Properties of the string functions\<close>

lemma split_str_marker:
  "sep \<noteq> [] \<Longrightarrow> split_str s sep =
     (case indexOf s sep of
        None \<Rightarrow> [s]
      | Some i \<Rightarrow> take i s # split_str (drop (i + length sep) s) sep)"
  by (subst split_str.simps) simp

lemma split_str_not_Nil: "sep \<noteq> [] \<Longrightarrow> split_str s sep \<noteq> []"
  by (subst split_str_marker) (simp_all split: option.splits)

lemma newline_not_Nil: "newline \<noteq> []"
  by (simp add: newline_def)

lemma lines_unfold:
  "split_str s newline =
     (case indexOf s newline of
        None \<Rightarrow> [s]
      | Some i \<Rightarrow> take i s # split_str (drop (Suc i) s) newline)"
  by (subst split_str_marker [OF newline_not_Nil]) (simp add: newline_def cong: option.case_cong)

lemma lines_Nil: "split_str [] newline = [[]]"
  by (subst lines_unfold) (simp add: newline_def)

lemma lines_Cons:
  "split_str (c # cs) newline =
     (if c = CHR 0x0A then [] # split_str cs newline
      else (c # hd (split_str cs newline)) # tl (split_str cs newline))"
proof (cases "c = CHR 0x0A")
  case True
  have "split_str (CHR 0x0A # cs) newline = [] # split_str cs newline"
    by (subst lines_unfold) (simp add: newline_def)
  with True show ?thesis by simp
next
  case False
  have rest: "split_str cs newline =
     (case indexOf cs newline of
        None \<Rightarrow> [cs]
      | Some i \<Rightarrow> take i cs # split_str (drop (Suc i) cs) newline)"
    by (rule lines_unfold)
  have "split_str (c # cs) newline =
     (case indexOf cs newline of
        None \<Rightarrow> [c # cs]
      | Some i \<Rightarrow> (c # take i cs) # split_str (drop (Suc i) cs) newline)"
    using False by (subst lines_unfold) (simp add: newline_def split: option.splits)
  with False show ?thesis
    by (simp add: rest split: option.splits)
qed

lemma trim_Cons_ws: "is_ws c \<Longrightarrow> trim (c # l) = trim l"
  by (simp add: trim_def)

lemma rev_dropWhile_rev_Cons:
  "\<not> P x \<Longrightarrow> rev (dropWhile P (rev (x # r))) = x # rev (dropWhile P (rev r))"
  by (simp add: dropWhile_append3)

lemma hyphen_not_ws: "\<not> is_ws CHR ''-''"
  by (simp add: is_ws_def)

lemma bulleted_iff:
  "bulleted l \<longleftrightarrow> (\<exists>r. dropWhile is_ws l = CHR ''-'' # r)"
proof
  assume b: "bulleted l"
  show "\<exists>r. dropWhile is_ws l = CHR ''-'' # r"
  proof (cases "dropWhile is_ws l")
    case Nil
    with b show ?thesis by (simp add: bulleted_def trim_def)
  next
    case (Cons x r)
    then have "\<not> is_ws x"
      by (metis hd_dropWhile list.distinct(1) list.sel(1))
    with Cons b show ?thesis
      by (simp add: bulleted_def trim_def dropWhile_append3)
  qed
next
  assume "\<exists>r. dropWhile is_ws l = CHR ''-'' # r"
  then obtain r where "dropWhile is_ws l = CHR ''-'' # r" ..
  then show "bulleted l"
    by (simp add: bulleted_def trim_def dropWhile_append3 hyphen_not_ws)
qed

lemma bulleted_Cons_ws: "is_ws c \<Longrightarrow> bulleted (c # l) = bulleted l"
  by (simp add: bulleted_def trim_Cons_ws)

lemma bulleted_append: "bulleted l \<Longrightarrow> bulleted (l @ r)"
proof -
  assume "bulleted l"
  then obtain x where x: "dropWhile is_ws l = CHR ''-'' # x"
    by (auto simp: bulleted_iff)
  then have "\<exists>y\<in>set l. \<not> is_ws y"
    by (metis dropWhile_eq_Nil_conv list.distinct(1))
  then have "dropWhile is_ws (l @ r) = dropWhile is_ws l @ r"
    by (auto simp: dropWhile_append)
  with x show ?thesis by (simp add: bulleted_iff)
qed

lemma not_bulleted_Nil: "\<not> bulleted []"
  by (simp add: bulleted_def trim_def)

text \<open>Dropping leading white space from a text adds no bulleted line.\<close>

lemma lines_dropWhile_ws:
  "list_ex bulleted (split_str (dropWhile is_ws t) newline)
   \<Longrightarrow> list_ex bulleted (split_str t newline)"
proof (induction t)
  case Nil
  then show ?case by simp
next
  case (Cons c cs)
  show ?case
  proof (cases "is_ws c")
    case False
    with Cons.prems show ?thesis by simp
  next
    case True
    with Cons have ih: "list_ex bulleted (split_str cs newline)" by simp
    obtain l ls where ls: "split_str cs newline = l # ls"
      by (cases "split_str cs newline") (simp_all add: split_str_not_Nil newline_not_Nil)
    with ih True show ?thesis
      by (auto simp: lines_Cons bulleted_Cons_ws)
  qed
qed

text \<open>
  The lines of a prefix of a text are lines of the text, except the last, which is the
  beginning of a line of the text.
\<close>

lemma lines_take:
  "\<exists>ls l r rest. split_str (take j t) newline = ls @ [l]
     \<and> split_str t newline = ls @ (l @ r) # rest"
proof (induction t arbitrary: j)
  case Nil
  show ?case by (simp add: lines_Nil)
next
  case (Cons c cs)
  show ?case
  proof (cases j)
    case 0
    obtain x xs where "split_str (c # cs) newline = x # xs"
      by (cases "split_str (c # cs) newline") (simp_all add: split_str_not_Nil newline_not_Nil)
    with 0 show ?thesis by (simp add: lines_Nil)
  next
    case (Suc k)
    from Cons.IH [of k] obtain ls l r rest where
      a: "split_str (take k cs) newline = ls @ [l]" and
      b: "split_str cs newline = ls @ (l @ r) # rest" by blast
    show ?thesis
    proof (cases "c = CHR 0x0A")
      case True
      with Suc a b have
        "split_str (take j (c # cs)) newline = ([] # ls) @ [l]
         \<and> split_str (c # cs) newline = ([] # ls) @ (l @ r) # rest"
        by (simp add: lines_Cons)
      then show ?thesis by blast
    next
      case False
      show ?thesis
      proof (cases ls)
        case Nil
        with False Suc a b have
          "split_str (take j (c # cs)) newline = [] @ [c # l]
           \<and> split_str (c # cs) newline = [] @ ((c # l) @ r) # rest"
          by (simp add: lines_Cons)
        then show ?thesis by blast
      next
        case (Cons x xs)
        with False Suc a b have
          "split_str (take j (c # cs)) newline = ((c # x) # xs) @ [l]
           \<and> split_str (c # cs) newline = ((c # x) # xs) @ (l @ r) # rest"
          by (simp add: lines_Cons)
        then show ?thesis by blast
      qed
    qed
  qed
qed

lemma lines_take_bulleted:
  assumes "list_ex bulleted (split_str (take j t) newline)"
  shows "list_ex bulleted (split_str t newline)"
proof -
  obtain ls l r rest where
    a: "split_str (take j t) newline = ls @ [l]" and
    b: "split_str t newline = ls @ (l @ r) # rest"
    using lines_take by blast
  from assms a have "list_ex bulleted ls \<or> bulleted l" by simp
  then show ?thesis
  proof
    assume "list_ex bulleted ls"
    with b show ?thesis by simp
  next
    assume "bulleted l"
    then have "bulleted (l @ r)" by (rule bulleted_append)
    with b show ?thesis by simp
  qed
qed

lemma rev_dropWhile_rev_take: "\<exists>k. rev (dropWhile P (rev t)) = take k t"
proof -
  let ?d = "rev (dropWhile P (rev t))"
  let ?w = "rev (takeWhile P (rev t))"
  have "?d @ ?w = rev (takeWhile P (rev t) @ dropWhile P (rev t))"
    by (simp only: rev_append)
  also have "\<dots> = t" by simp
  finally have e: "?d @ ?w = t" .
  have "take (length ?d) (?d @ ?w) = ?d" by simp
  then have "?d = take (length ?d) t" by (simp only: e)
  then show ?thesis by (rule exI)
qed

lemma lines_trim_bulleted:
  assumes "list_ex bulleted (split_str (trim t) newline)"
  shows "list_ex bulleted (split_str t newline)"
proof -
  obtain k where "rev (dropWhile is_ws (rev (dropWhile is_ws t))) = take k (dropWhile is_ws t)"
    using rev_dropWhile_rev_take [of is_ws "dropWhile is_ws t"] by blast
  then have "trim t = take k (dropWhile is_ws t)"
    by (simp only: trim_def)
  with assms have "list_ex bulleted (split_str (take k (dropWhile is_ws t)) newline)"
    by simp
  then have "list_ex bulleted (split_str (dropWhile is_ws t) newline)"
    by (rule lines_take_bulleted)
  then show ?thesis by (rule lines_dropWhile_ws)
qed

section \<open>Properties of the URL parser\<close>

lemma takeWhile_segment:
  "CHR ''/'' \<notin> set seg \<Longrightarrow> takeWhile not_slash (seg @ CHR ''/'' # rest) = seg"
  by (induction seg) (auto simp add: not_slash_def)

lemma dropWhile_segment:
  "CHR ''/'' \<notin> set seg \<Longrightarrow> dropWhile not_slash (seg @ CHR ''/'' # rest) = CHR ''/'' # rest"
  by (induction seg) (auto simp add: not_slash_def)

lemma takeWhile_last_segment:
  "CHR ''/'' \<notin> set seg \<Longrightarrow> takeWhile not_slash seg = seg"
  by (induction seg) (auto simp add: not_slash_def)

lemma match_here_segment:
  assumes "ow \<noteq> []" "rp \<noteq> []" "CHR ''/'' \<notin> set ow" "CHR ''/'' \<notin> set rp"
  shows "match_here (''github.com/'' @ ow @ ''/'' @ rp) = Some (ow, rp)"
  using assms
  by (simp add: match_here_def takeWhile_segment dropWhile_segment takeWhile_last_segment)

text \<open>
  A URL of the usual form is parsed into its owner and its repository name, the name
  passed through \<^verbatim>\<open>replace('.git', '')\<close>.
\<close>

lemma parseRepoUrl_https:
  assumes "ow \<noteq> []" "rp \<noteq> []" "CHR ''/'' \<notin> set ow" "CHR ''/'' \<notin> set rp"
  shows "parseRepoUrl (''https://github.com/'' @ ow @ ''/'' @ rp)
         = Inr \<lparr>owner = ow, repo = replace_str rp ''.git'' ''''\<rparr>"
proof -
  have "match_url (''https://'' @ (''github.com/'' @ ow @ ''/'' @ rp)) = Some (ow, rp)"
    using match_here_segment [OF assms]
    by (cases ow) (simp_all add: match_here_def)
  then show ?thesis
    by (simp add: parseRepoUrl_def)
qed

lemma indexOf_git_suffix:
  "CHR ''.'' \<notin> set n \<Longrightarrow> indexOf (n @ ''.git'') ''.git'' = Some (length n)"
  by (induction n) auto

text \<open>The \<^verbatim>\<open>.git\<close> suffix is removed when the name has no dot before it.\<close>

lemma replace_git_suffix:
  "CHR ''.'' \<notin> set n \<Longrightarrow> replace_str (n @ ''.git'') ''.git'' '''' = n"
  by (simp add: replace_str_def indexOf_git_suffix)

lemma parseRepoUrl_error:
  "parseRepoUrl url = Inl e \<Longrightarrow> e = Error ''Invalid GitHub URL'' \<and> match_url url = None"
  by (auto simp add: parseRepoUrl_def split: option.splits)

text \<open>
  Claim C3. The parser is to return the exact owner and the repository name with a trailing
  \<^verbatim>\<open>.git\<close> removed, and only a trailing one. On the address of a GitHub Pages repository
  the code returns another name: \<^verbatim>\<open>replace('.git', '')\<close> removes the first \<^verbatim>\<open>.git\<close>
  of the name, which here stands at the start of \<^verbatim>\<open>.github.io\<close>.
\<close>

theorem parseRepoUrl_inner_git:
  "parseRepoUrl ''https://github.com/octocat/octocat.github.io''
   = Inr \<lparr>owner = ''octocat'', repo = ''octocathub.io''\<rparr>"
  by code_simp

section \<open>Properties of the insight generator\<close>

lemma marker_not_Nil: "''ROADMAP:'' \<noteq> []"
  by simp

lemma bulleted_fun: "(\<lambda>line. startsWith (trim line) ''-'') = bulleted"
  by (rule ext) (simp add: bulleted_def)

lemma trim_Nil: "trim [] = []"
  by (simp add: trim_def)

lemma hd_split_str: "sep \<noteq> [] \<Longrightarrow>
  \<exists>rest. split_str s sep = (case indexOf s sep of None \<Rightarrow> s | Some i \<Rightarrow> take i s) # rest"
  by (subst split_str_marker) (simp_all split: option.splits)

text \<open>
  The parse never throws, and its result in closed form: the summary comes from the text
  before the first marker, the roadmap from the text between the first marker and the
  next one (or the end).
\<close>

lemma parse_reply_eq:
  "parse_reply reply =
     Inr \<lparr>summary = trim (replace_str (pre_marker reply) ''SUMMARY:'' ''''),
          roadmap =
            filter (\<lambda>item. item \<noteq> [])
              (map (\<lambda>line. trim (strip_bullet line))
                 (filter bulleted
                    (split_str (trim (pre_marker (post_marker reply))) newline)))\<rparr>"
proof (cases "indexOf reply ''ROADMAP:''")
  case None
  then have parts: "split_str reply ''ROADMAP:'' = [reply]"
    by (subst split_str_marker) simp_all
  from None have "pre_marker reply = reply" "post_marker reply = []"
    by (simp_all add: pre_marker_def post_marker_def)
  moreover have "pre_marker [] = []"
    by (simp add: pre_marker_def)
  ultimately show ?thesis
    by (simp add: parse_reply_def parts bulleted_fun trim_Nil)
next
  case (Some i)
  let ?post = "drop (i + length ''ROADMAP:'') reply"
  have parts: "split_str reply ''ROADMAP:'' = take i reply # split_str ?post ''ROADMAP:''"
    using Some by (subst split_str_marker) simp_all
  obtain rest where others: "split_str ?post ''ROADMAP:'' = pre_marker ?post # rest"
    unfolding pre_marker_def using hd_split_str [OF marker_not_Nil] by blast
  from Some have pm: "pre_marker reply = take i reply" "post_marker reply = ?post"
    by (simp_all add: pre_marker_def post_marker_def)
  show ?thesis
    unfolding parse_reply_def parts Let_def list.case pm others
    by (simp add: bulleted_fun trim_Nil)
qed

lemma pre_marker_take: "\<exists>j. pre_marker t = take j t"
proof (cases "indexOf t ''ROADMAP:''")
  case None
  then have "pre_marker t = take (length t) t" by (simp add: pre_marker_def)
  then show ?thesis by (rule exI)
next
  case (Some i)
  then have "pre_marker t = take i t" by (simp add: pre_marker_def)
  then show ?thesis by (rule exI)
qed

lemma no_bullets_no_roadmap:
  assumes "\<not> list_ex bulleted (split_str (post_marker reply) newline)"
  shows "filter bulleted (split_str (trim (pre_marker (post_marker reply))) newline) = []"
proof -
  obtain j where j: "pre_marker (post_marker reply) = take j (post_marker reply)"
    using pre_marker_take by blast
  have "\<not> list_ex bulleted (split_str (trim (pre_marker (post_marker reply))) newline)"
  proof
    assume "list_ex bulleted (split_str (trim (pre_marker (post_marker reply))) newline)"
    then have "list_ex bulleted (split_str (take j (post_marker reply)) newline)"
      unfolding j by (rule lines_trim_bulleted)
    then have "list_ex bulleted (split_str (post_marker reply) newline)"
      by (rule lines_take_bulleted)
    with assms show False by simp
  qed
  then show ?thesis
    by (simp add: filter_empty_conv list_ex_iff)
qed

lemma no_marker_post: "\<not> includes_str reply ''ROADMAP:'' \<Longrightarrow> post_marker reply = []"
  by (simp add: includes_str_def post_marker_def)

lemma fallback_six: "length (roadmap (fallback m sc)) = 6"
  by (simp add: fallback_def)

text \<open>
  Claim C6. A reply that the service returned is parsed, never replaced by the fallback:
  when the reply has no \<^verbatim>\<open>ROADMAP:\<close> marker, or the text after the first marker has no
  line that starts with a hyphen once trimmed, the result is the parsed summary with an
  empty roadmap, and it is not the fallback.
\<close>

theorem malformed_reply_no_fallback:
  assumes reply: "generateContent m sc = Inr reply"
    and malformed: "\<not> includes_str reply ''ROADMAP:''
                    \<or> \<not> list_ex bulleted (split_str (post_marker reply) newline)"
  shows "generateAIInsights generateContent m sc =
           \<lparr>summary = trim (replace_str (pre_marker reply) ''SUMMARY:'' ''''), roadmap = []\<rparr>
         \<and> generateAIInsights generateContent m sc \<noteq> fallback m sc"
proof -
  have none: "\<not> list_ex bulleted (split_str (post_marker reply) newline)"
  proof (cases "includes_str reply ''ROADMAP:''")
    case True
    with malformed show ?thesis by simp
  next
    case False
    then have "post_marker reply = []" by (rule no_marker_post)
    then show ?thesis by (simp add: lines_Nil not_bulleted_Nil)
  qed
  have eq: "generateAIInsights generateContent m sc =
           \<lparr>summary = trim (replace_str (pre_marker reply) ''SUMMARY:'' ''''), roadmap = []\<rparr>"
    by (simp add: generateAIInsights_def reply parse_reply_eq no_bullets_no_roadmap [OF none])
  have "roadmap (fallback m sc) \<noteq> []"
    using fallback_six [of m sc] by auto
  then have "roadmap (generateAIInsights generateContent m sc) \<noteq> roadmap (fallback m sc)"
    by (simp add: eq)
  then have "generateAIInsights generateContent m sc \<noteq> fallback m sc" by auto
  with eq show ?thesis by simp
qed

theorem malformed_reply_no_fallback_witness:
  "generateAIInsights (\<lambda>m sc. Inr reply_no_marker) scenario_empty 5
     = \<lparr>summary = ''Looks fine. Nothing to add.'', roadmap = []\<rparr>
   \<and> generateAIInsights (\<lambda>m sc. Inr reply_no_bullets) scenario_empty 5
     = \<lparr>summary = ''Looks fine.'', roadmap = []\<rparr>"
proof -
  have a: "\<not> includes_str reply_no_marker ''ROADMAP:''"
    by code_simp
  have sa: "trim (replace_str (pre_marker reply_no_marker) ''SUMMARY:'' '''')
            = ''Looks fine. Nothing to add.''"
    by code_simp
  have b: "\<not> list_ex bulleted (split_str (post_marker reply_no_bullets) newline)"
    by code_simp
  have sb: "trim (replace_str (pre_marker reply_no_bullets) ''SUMMARY:'' '''')
            = ''Looks fine.''"
    by code_simp
  have one: "generateAIInsights (\<lambda>m sc. Inr reply_no_marker) scenario_empty 5
     = \<lparr>summary = ''Looks fine. Nothing to add.'', roadmap = []\<rparr>"
    using malformed_reply_no_fallback
      [of "\<lambda>m sc. Inr reply_no_marker" scenario_empty 5 reply_no_marker] a sa
    by simp
  have two: "generateAIInsights (\<lambda>m sc. Inr reply_no_bullets) scenario_empty 5
     = \<lparr>summary = ''Looks fine.'', roadmap = []\<rparr>"
    using malformed_reply_no_fallback
      [of "\<lambda>m sc. Inr reply_no_bullets" scenario_empty 5 reply_no_bullets] b sb
    by simp
  from one two show ?thesis by simp
qed

lemma insights_fallback_on_throw:
  "generateContent m sc = Inl e \<Longrightarrow>
     generateAIInsights generateContent m sc = fallback m sc
     \<and> length (roadmap (generateAIInsights generateContent m sc)) = 6"
  by (simp add: generateAIInsights_def fallback_def)

lemma parse_reply_five:
  "parse_reply reply_five =
     Inr \<lparr>summary = ''Solid project.'',
          roadmap = [''add tests'', ''add CI'', ''write docs'', ''tag releases'',
                     ''review issues'']\<rparr>"
  by code_simp

text \<open>
  An indented line that is bulleted keeps its hyphen: the regular expression does not
  match at the white space, so only the white space goes.
\<close>

lemma indented_bullet_keeps_hyphen:
  assumes "is_ws c" "bulleted (c # l)"
  shows "startsWith (trim (strip_bullet (c # l))) ''-''"
proof -
  from assms(1) have "c \<noteq> CHR ''-''"
    using hyphen_not_ws by auto
  then have "strip_bullet (c # l) = c # l"
    by (simp add: strip_bullet_def)
  with assms(2) show ?thesis
    by (simp add: bulleted_def)
qed

text \<open>
  Claim C5. Every line after the marker that starts with a hyphen once trimmed is to enter
  the roadmap with the hyphen and the white space after it removed. On a reply whose
  second bullet is indented, the code returns that bullet with its hyphen.
\<close>

theorem insights_indented_bullet:
  "generateAIInsights (\<lambda>m sc. Inr reply_indented) scenario_full 100
   = \<lparr>summary = ''ok'', roadmap = [''first'', ''- second'']\<rparr>"
proof -
  have "parse_reply reply_indented
        = Inr \<lparr>summary = ''ok'', roadmap = [''first'', ''- second'']\<rparr>"
    by code_simp
  then show ?thesis
    by (simp add: generateAIInsights_def)
qed

section \<open>Properties of the metrics fetcher\<close>

lemma fetch_body_fatal:
  "isl (fetch_body t api) \<longleftrightarrow>
     isl (repos_get api) \<or> isl (repos_listLanguages api)
     \<or> isl (repos_listCommits api) \<or> isl (repos_listBranches api)"
  by (simp add: fetch_body_def Let_def split: sum.splits prod.splits)

lemma fetch_body_error:
  "fetch_body t api = Inl e \<Longrightarrow>
     repos_get api = Inl e \<or> repos_listLanguages api = Inl e
     \<or> repos_listCommits api = Inl e \<or> repos_listBranches api = Inl e"
  by (simp add: fetch_body_def Let_def split: sum.splits prod.splits)

lemma fetch_body_fields:
  "fetch_body t api = Inr m \<Longrightarrow>
     has_readme m = (\<not> isl (repos_getReadme api))
     \<and> readme_length m = (case repos_getReadme api of Inr r \<Rightarrow> int (length r) | Inl e \<Rightarrow> 0)
     \<and> total_prs m = (case pulls_list api of Inr prs \<Rightarrow> int (length prs) | Inl e \<Rightarrow> 0)
     \<and> has_tests m = checkForTests api
     \<and> has_cicd m = checkForCICD api
     \<and> primary_language m \<noteq> []"
  by (auto simp add: fetch_body_def Let_def split: sum.splits prod.splits option.splits if_splits)

lemma fetch_body_record:
  assumes "repos_get api = Inr d" "repos_listLanguages api = Inr ls"
    "repos_listCommits api = Inr cs" "repos_listBranches api = Inr bs"
  shows "fetch_body t api =
     Inr \<lparr>name = data_name d, stars = stargazers_count d, forks = forks_count d,
          watchers = watchers_count d, open_issues = open_issues_count d,
          primary_language =
            (case language d of
               None \<Rightarrow> ''Unknown''
             | Some l \<Rightarrow> if l = [] then ''Unknown'' else l),
          languages = map fst ls,
          has_readme = (\<not> isl (repos_getReadme api)),
          readme_length =
            (case repos_getReadme api of Inr r \<Rightarrow> int (length r) | Inl e \<Rightarrow> 0),
          total_commits = int (length cs),
          recent_commits = int (length (filter (\<lambda>date. date > t) cs)),
          branch_count = int (length bs),
          total_prs =
            (case pulls_list api of Inr prs \<Rightarrow> int (length prs) | Inl e \<Rightarrow> 0),
          has_tests = checkForTests api,
          has_cicd = checkForCICD api\<rparr>"
  using assms
  by (simp add: fetch_body_def Let_def split: sum.splits prod.splits)

lemma fetchMetrics_isl: "isl (fetchMetrics t api) = isl (fetch_body t api)"
  by (simp add: fetchMetrics_def split: sum.splits)

lemma fetchMetrics_Inr: "fetchMetrics t api = Inr m \<longleftrightarrow> fetch_body t api = Inr m"
  by (simp add: fetchMetrics_def split: sum.splits)

lemma fetchMetrics_Inl:
  "fetchMetrics t api = Inl err \<longleftrightarrow>
     (\<exists>e. fetch_body t api = Inl e \<and> err = Error (''Failed to fetch metrics: '' @ message e))"
  by (auto simp add: fetchMetrics_def split: sum.splits)

lemma probe_paths_none:
  "\<forall>path\<in>set paths. isl (repos_getContent api path) \<Longrightarrow> \<not> probe_paths api paths"
  by (induction paths) (auto split: sum.splits)

lemma checkForTests_down: "isl (repos_getContent api '''') \<Longrightarrow> \<not> checkForTests api"
  by (auto simp add: checkForTests_def split: sum.splits)

lemma fetch_body_readme_irrelevant:
  "(fetch_body t (api\<lparr>repos_getReadme := r\<rparr>) = Inl e) = (fetch_body t api = Inl e)"
  by (simp add: fetch_body_def Let_def split: sum.splits prod.splits)

lemma fetch_body_prs_irrelevant:
  "(fetch_body t (api\<lparr>pulls_list := p\<rparr>) = Inl e) = (fetch_body t api = Inl e)"
  by (simp add: fetch_body_def Let_def split: sum.splits prod.splits)

lemma fetch_languages_down:
  "fetchMetrics 1000 api_languages_down
     = Inl (Error ''Failed to fetch metrics: rate limit exceeded'')"
  by (simp add: api_languages_down_def api_up_def fetchMetrics_def fetch_body_def)

text \<open>
  Claim C2, amended. The fetch fails exactly when the repository call, the languages call,
  the commits call or the branches call fails, and its error carries the message of such a
  call after the prefix \<^verbatim>\<open>Failed to fetch metrics: \<close>. A failure of the README call, the
  pull-request call, the listing of the root directory or all five CI probes is defaulted
  in the record that is returned (no README and length 0, no pull requests, no tests, no
  CI), and a primary language that the host does not give (null or the empty string)
  becomes \<^verbatim>\<open>Unknown\<close>. When the four calls succeed, the record is returned with every
  field set: from the data of the calls, or to its default.
\<close>

theorem fetchMetrics_fatal_calls:
  "(isl (fetchMetrics t api) \<longleftrightarrow>
      isl (repos_get api) \<or> isl (repos_listLanguages api)
      \<or> isl (repos_listCommits api) \<or> isl (repos_listBranches api))
   \<and> (\<forall>err. fetchMetrics t api = Inl err \<longrightarrow>
        (\<exists>e. err = Error (''Failed to fetch metrics: '' @ message e)
           \<and> (repos_get api = Inl e \<or> repos_listLanguages api = Inl e
                \<or> repos_listCommits api = Inl e \<or> repos_listBranches api = Inl e)))
   \<and> (\<forall>m. fetchMetrics t api = Inr m \<longrightarrow>
        (isl (repos_getReadme api) \<longrightarrow> \<not> has_readme m \<and> readme_length m = 0)
        \<and> (isl (pulls_list api) \<longrightarrow> total_prs m = 0)
        \<and> (isl (repos_getContent api '''') \<longrightarrow> \<not> has_tests m)
        \<and> ((\<forall>path\<in>set cicdPaths. isl (repos_getContent api path)) \<longrightarrow> \<not> has_cicd m)
        \<and> primary_language m \<noteq> []
        \<and> (\<forall>d. repos_get api = Inr d \<and> (language d = None \<or> language d = Some [])
              \<longrightarrow> primary_language m = ''Unknown''))
   \<and> (\<forall>d ls cs bs.
        repos_get api = Inr d \<and> repos_listLanguages api = Inr ls
        \<and> repos_listCommits api = Inr cs \<and> repos_listBranches api = Inr bs
        \<longrightarrow> fetchMetrics t api =
             Inr \<lparr>name = data_name d, stars = stargazers_count d, forks = forks_count d,
                  watchers = watchers_count d, open_issues = open_issues_count d,
                  primary_language =
                    (case language d of
                       None \<Rightarrow> ''Unknown''
                     | Some l \<Rightarrow> if l = [] then ''Unknown'' else l),
                  languages = map fst ls,
                  has_readme = (\<not> isl (repos_getReadme api)),
                  readme_length =
                    (case repos_getReadme api of
                       Inr r \<Rightarrow> int (length r)
                     | Inl e \<Rightarrow> 0),
                  total_commits = int (length cs),
                  recent_commits = int (length (filter (\<lambda>date. date > t) cs)),
                  branch_count = int (length bs),
                  total_prs =
                    (case pulls_list api of
                       Inr prs \<Rightarrow> int (length prs)
                     | Inl e \<Rightarrow> 0),
                  has_tests = checkForTests api,
                  has_cicd = checkForCICD api\<rparr>)"
proof -
  have a: "isl (fetchMetrics t api) \<longleftrightarrow>
      isl (repos_get api) \<or> isl (repos_listLanguages api)
      \<or> isl (repos_listCommits api) \<or> isl (repos_listBranches api)"
    by (simp only: fetchMetrics_isl fetch_body_fatal)
  have b: "\<exists>e. err = Error (''Failed to fetch metrics: '' @ message e)
           \<and> (repos_get api = Inl e \<or> repos_listLanguages api = Inl e
                \<or> repos_listCommits api = Inl e \<or> repos_listBranches api = Inl e)"
    if "fetchMetrics t api = Inl err" for err
  proof -
    from that obtain e where e: "fetch_body t api = Inl e"
      and err: "err = Error (''Failed to fetch metrics: '' @ message e)"
      by (auto simp: fetchMetrics_Inl)
    from fetch_body_error [OF e] err show ?thesis by blast
  qed
  have c: "(isl (repos_getReadme api) \<longrightarrow> \<not> has_readme m \<and> readme_length m = 0)
        \<and> (isl (pulls_list api) \<longrightarrow> total_prs m = 0)
        \<and> (isl (repos_getContent api '''') \<longrightarrow> \<not> has_tests m)
        \<and> ((\<forall>path\<in>set cicdPaths. isl (repos_getContent api path)) \<longrightarrow> \<not> has_cicd m)
        \<and> primary_language m \<noteq> []"
    if "fetchMetrics t api = Inr m" for m
  proof -
    from that have "fetch_body t api = Inr m" by (simp only: fetchMetrics_Inr)
    from fetch_body_fields [OF this] show ?thesis
      using probe_paths_none [of cicdPaths api] checkForTests_down [of api]
      by (auto simp: checkForCICD_def split: sum.splits)
  qed
  have d: "\<forall>d. repos_get api = Inr d \<and> (language d = None \<or> language d = Some [])
              \<longrightarrow> primary_language m = ''Unknown''"
    if "fetchMetrics t api = Inr m" for m
  proof -
    from that have "fetch_body t api = Inr m" by (simp only: fetchMetrics_Inr)
    then show ?thesis
      by (auto simp add: fetch_body_def Let_def split: sum.splits prod.splits)
  qed
  have e: "fetchMetrics t api =
             Inr \<lparr>name = data_name d, stars = stargazers_count d, forks = forks_count d,
                  watchers = watchers_count d, open_issues = open_issues_count d,
                  primary_language =
                    (case language d of
                       None \<Rightarrow> ''Unknown''
                     | Some l \<Rightarrow> if l = [] then ''Unknown'' else l),
                  languages = map fst ls,
                  has_readme = (\<not> isl (repos_getReadme api)),
                  readme_length =
                    (case repos_getReadme api of
                       Inr r \<Rightarrow> int (length r)
                     | Inl e \<Rightarrow> 0),
                  total_commits = int (length cs),
                  recent_commits = int (length (filter (\<lambda>date. date > t) cs)),
                  branch_count = int (length bs),
                  total_prs =
                    (case pulls_list api of
                       Inr prs \<Rightarrow> int (length prs)
                     | Inl e \<Rightarrow> 0),
                  has_tests = checkForTests api,
                  has_cicd = checkForCICD api\<rparr>"
    if "repos_get api = Inr d \<and> repos_listLanguages api = Inr ls
        \<and> repos_listCommits api = Inr cs \<and> repos_listBranches api = Inr bs"
    for d ls cs bs
  proof -
    from that have "repos_get api = Inr d" "repos_listLanguages api = Inr ls"
      "repos_listCommits api = Inr cs" "repos_listBranches api = Inr bs"
      by simp_all
    from fetch_body_record [OF this, of t] show ?thesis
      by (simp add: fetchMetrics_def)
  qed
  have cd: "(isl (repos_getReadme api) \<longrightarrow> \<not> has_readme m \<and> readme_length m = 0)
        \<and> (isl (pulls_list api) \<longrightarrow> total_prs m = 0)
        \<and> (isl (repos_getContent api '''') \<longrightarrow> \<not> has_tests m)
        \<and> ((\<forall>path\<in>set cicdPaths. isl (repos_getContent api path)) \<longrightarrow> \<not> has_cicd m)
        \<and> primary_language m \<noteq> []
        \<and> (\<forall>d. repos_get api = Inr d \<and> (language d = None \<or> language d = Some [])
              \<longrightarrow> primary_language m = ''Unknown'')"
    if "fetchMetrics t api = Inr m" for m
    using c [OF that] d [OF that] by blast
  have third: "\<forall>m. fetchMetrics t api = Inr m \<longrightarrow>
        (isl (repos_getReadme api) \<longrightarrow> \<not> has_readme m \<and> readme_length m = 0)
        \<and> (isl (pulls_list api) \<longrightarrow> total_prs m = 0)
        \<and> (isl (repos_getContent api '''') \<longrightarrow> \<not> has_tests m)
        \<and> ((\<forall>path\<in>set cicdPaths. isl (repos_getContent api path)) \<longrightarrow> \<not> has_cicd m)
        \<and> primary_language m \<noteq> []
        \<and> (\<forall>d. repos_get api = Inr d \<and> (language d = None \<or> language d = Some [])
              \<longrightarrow> primary_language m = ''Unknown'')"
    using cd by (intro allI impI)
  have second: "\<forall>err. fetchMetrics t api = Inl err \<longrightarrow>
        (\<exists>e. err = Error (''Failed to fetch metrics: '' @ message e)
           \<and> (repos_get api = Inl e \<or> repos_listLanguages api = Inl e
                \<or> repos_listCommits api = Inl e \<or> repos_listBranches api = Inl e))"
    using b by (intro allI impI)
  have fourth: "\<forall>d ls cs bs.
        repos_get api = Inr d \<and> repos_listLanguages api = Inr ls
        \<and> repos_listCommits api = Inr cs \<and> repos_listBranches api = Inr bs
        \<longrightarrow> fetchMetrics t api =
             Inr \<lparr>name = data_name d, stars = stargazers_count d, forks = forks_count d,
                  watchers = watchers_count d, open_issues = open_issues_count d,
                  primary_language =
                    (case language d of
                       None \<Rightarrow> ''Unknown''
                     | Some l \<Rightarrow> if l = [] then ''Unknown'' else l),
                  languages = map fst ls,
                  has_readme = (\<not> isl (repos_getReadme api)),
                  readme_length =
                    (case repos_getReadme api of
                       Inr r \<Rightarrow> int (length r)
                     | Inl e \<Rightarrow> 0),
                  total_commits = int (length cs),
                  recent_commits = int (length (filter (\<lambda>date. date > t) cs)),
                  branch_count = int (length bs),
                  total_prs =
                    (case pulls_list api of
                       Inr prs \<Rightarrow> int (length prs)
                     | Inl e \<Rightarrow> 0),
                  has_tests = checkForTests api,
                  has_cicd = checkForCICD api\<rparr>"
    using e by (intro allI impI)
  from a second third fourth show ?thesis
    by (intro conjI)
qed

text \<open>
  Claim C2 as stated says that only a failure of the repository call is fatal. Here the
  repository call succeeds and the languages call fails, and the whole fetch fails.
\<close>

theorem fetchMetrics_not_only_metadata_fatal:
  "\<not> isl (repos_get api_languages_down)
   \<and> fetchMetrics 1000 api_languages_down
       = Inl (Error ''Failed to fetch metrics: rate limit exceeded'')"
  using fetch_languages_down by (simp add: api_languages_down_def api_up_def)

theorem fetchMetrics_fatal_calls_witness:
  "fetchMetrics 1000 api_languages_down
       = Inl (Error ''Failed to fetch metrics: rate limit exceeded'')
   \<and> (\<exists>m. fetchMetrics 1000 api_probes_down = Inr m
        \<and> \<not> has_readme m \<and> readme_length m = 0 \<and> total_prs m = 0
        \<and> \<not> has_tests m \<and> \<not> has_cicd m \<and> primary_language m = ''Unknown'')"
proof -
  note down = fetchMetrics_fatal_calls [of 1000 api_languages_down]
  note probes = fetchMetrics_fatal_calls [of 1000 api_probes_down]
  have "isl (repos_listLanguages api_languages_down)"
    by (simp add: api_languages_down_def)
  with down have "isl (fetchMetrics 1000 api_languages_down)"
    by blast
  then obtain err where err: "fetchMetrics 1000 api_languages_down = Inl err"
    by (cases "fetchMetrics 1000 api_languages_down") simp_all
  with down obtain e where e: "err = Error (''Failed to fetch metrics: '' @ message e)"
    and which: "repos_get api_languages_down = Inl e
       \<or> repos_listLanguages api_languages_down = Inl e
       \<or> repos_listCommits api_languages_down = Inl e
       \<or> repos_listBranches api_languages_down = Inl e"
    by blast
  from which have "e = Error ''rate limit exceeded''"
    by (simp add: api_languages_down_def api_up_def)
  with e err have first: "fetchMetrics 1000 api_languages_down
       = Inl (Error ''Failed to fetch metrics: rate limit exceeded'')" by simp
  have ok: "\<not> isl (repos_get api_probes_down)" "\<not> isl (repos_listLanguages api_probes_down)"
    "\<not> isl (repos_listCommits api_probes_down)" "\<not> isl (repos_listBranches api_probes_down)"
    by (simp_all add: api_probes_down_def api_readme_prs_down_def api_up_def)
  with probes have "\<not> isl (fetchMetrics 1000 api_probes_down)"
    by blast
  then obtain m where m: "fetchMetrics 1000 api_probes_down = Inr m"
    by (cases "fetchMetrics 1000 api_probes_down") simp_all
  have failed: "isl (repos_getReadme api_probes_down)" "isl (pulls_list api_probes_down)"
    "isl (repos_getContent api_probes_down '''')"
    "\<forall>path\<in>set cicdPaths. isl (repos_getContent api_probes_down path)"
    by (simp_all add: api_probes_down_def api_readme_prs_down_def)
  have lang: "\<exists>d. repos_get api_probes_down = Inr d \<and> language d = None"
    by (simp add: api_probes_down_def api_readme_prs_down_def api_up_def)
  from probes m failed lang
  have "\<not> has_readme m \<and> readme_length m = 0 \<and> total_prs m = 0
        \<and> \<not> has_tests m \<and> \<not> has_cicd m \<and> primary_language m = ''Unknown''"
    by blast
  with first m show ?thesis by blast
qed

lemma fetchMetrics_readme_irrelevant:
  "(fetchMetrics t (api\<lparr>repos_getReadme := r\<rparr>) = Inl err) = (fetchMetrics t api = Inl err)"
  by (simp only: fetchMetrics_Inl fetch_body_readme_irrelevant)

lemma fetchMetrics_prs_irrelevant:
  "(fetchMetrics t (api\<lparr>pulls_list := p\<rparr>) = Inl err) = (fetchMetrics t api = Inl err)"
  by (simp only: fetchMetrics_Inl fetch_body_prs_irrelevant)

lemma fetchMetrics_succeeds:
  assumes "\<not> isl (repos_get api)" "\<not> isl (repos_listLanguages api)"
    "\<not> isl (repos_listCommits api)" "\<not> isl (repos_listBranches api)"
  shows "\<exists>m. fetchMetrics t api = Inr m"
proof -
  from assms have "\<not> isl (fetchMetrics t api)"
    by (simp only: fetchMetrics_isl fetch_body_fatal) simp
  then show ?thesis
    by (cases "fetchMetrics t api") simp_all
qed

text \<open>
  Claim C7. When the README call fails, a record that is returned has no README and README
  length 0; when the pull-request call fails, it has 0 pull requests. The fetch succeeds
  whenever the repository, languages, commits and branches calls do, whatever the README
  call and the pull-request call did; and whether and with which error the fetch fails
  does not depend on the outcomes of these two calls, so their failures never reach the
  caller.
\<close>

theorem readme_and_prs_failures_defaulted:
  "(\<forall>m e. repos_getReadme api = Inl e \<and> fetchMetrics t api = Inr m
       \<longrightarrow> \<not> has_readme m \<and> readme_length m = 0)
   \<and> (\<forall>m e. pulls_list api = Inl e \<and> fetchMetrics t api = Inr m \<longrightarrow> total_prs m = 0)
   \<and> (\<not> isl (repos_get api) \<and> \<not> isl (repos_listLanguages api)
        \<and> \<not> isl (repos_listCommits api) \<and> \<not> isl (repos_listBranches api)
       \<longrightarrow> (\<exists>m. fetchMetrics t api = Inr m))
   \<and> (\<forall>r p err. (fetchMetrics t (api\<lparr>repos_getReadme := r, pulls_list := p\<rparr>) = Inl err)
                 = (fetchMetrics t api = Inl err))"
proof -
  have a: "\<not> has_readme m \<and> readme_length m = 0"
    if "repos_getReadme api = Inl e \<and> fetchMetrics t api = Inr m" for m e
  proof -
    from that have "fetch_body t api = Inr m" by (simp only: fetchMetrics_Inr)
    from fetch_body_fields [OF this] that show ?thesis by simp
  qed
  have b: "total_prs m = 0"
    if "pulls_list api = Inl e \<and> fetchMetrics t api = Inr m" for m e
  proof -
    from that have "fetch_body t api = Inr m" by (simp only: fetchMetrics_Inr)
    from fetch_body_fields [OF this] that show ?thesis by simp
  qed
  have c: "\<not> isl (repos_get api) \<and> \<not> isl (repos_listLanguages api)
        \<and> \<not> isl (repos_listCommits api) \<and> \<not> isl (repos_listBranches api)
       \<longrightarrow> (\<exists>m. fetchMetrics t api = Inr m)"
    using fetchMetrics_succeeds [of api t] by blast
  have d: "(fetchMetrics t (api\<lparr>repos_getReadme := r, pulls_list := p\<rparr>) = Inl err)
                 = (fetchMetrics t api = Inl err)" for r p err
    by (simp only: fetchMetrics_prs_irrelevant fetchMetrics_readme_irrelevant)
  from a b c d show ?thesis by blast
qed

theorem readme_and_prs_failures_defaulted_witness:
  "repos_getReadme api_readme_prs_down = Inl (Error ''Not Found'')
   \<and> pulls_list api_readme_prs_down = Inl (Error ''Server Error'')
   \<and> (\<exists>m. fetchMetrics 1000 api_readme_prs_down = Inr m
        \<and> \<not> has_readme m \<and> readme_length m = 0 \<and> total_prs m = 0)"
proof -
  have r: "repos_getReadme api_readme_prs_down = Inl (Error ''Not Found'')"
    and p: "pulls_list api_readme_prs_down = Inl (Error ''Server Error'')"
    by (simp_all add: api_readme_prs_down_def)
  have ok: "\<not> isl (repos_get api_readme_prs_down)
        \<and> \<not> isl (repos_listLanguages api_readme_prs_down)
        \<and> \<not> isl (repos_listCommits api_readme_prs_down)
        \<and> \<not> isl (repos_listBranches api_readme_prs_down)"
    by (simp add: api_readme_prs_down_def api_up_def)
  note inst = readme_and_prs_failures_defaulted [of api_readme_prs_down 1000]
  from inst ok obtain m where m: "fetchMetrics 1000 api_readme_prs_down = Inr m"
    by blast
  from inst r p m have "\<not> has_readme m \<and> readme_length m = 0 \<and> total_prs m = 0"
    by blast
  with r p m show ?thesis by blast
qed

section \<open>Properties of the orchestrator\<close>

lemma analyzeRepository_Inl:
  "analyzeRepository env url = Inl err \<longleftrightarrow>
     (\<exists>e. analyze_body env url = Inl e \<and> err = Error (''Analysis failed: '' @ message e))"
  by (auto simp add: analyzeRepository_def split: sum.splits)

lemma startsWith_append: "startsWith (p @ s) p"
  by (induction p) simp_all

text \<open>
  Claim C9. A failure of the parser and a failure of the fetcher both leave
  \<^verbatim>\<open>analyzeRepository\<close> as one error whose message is \<^verbatim>\<open>Analysis failed: \<close> followed by
  the message of the failure; every error that leaves it has this form; and when parser and
  fetcher succeed, it returns the complete result: the score of the fetched metrics, the
  summary and the roadmap of the insight generator for these metrics and this score, and
  the metrics.
\<close>

theorem analyzeRepository_outcomes:
  "(\<forall>e. parseRepoUrl url = Inl e \<longrightarrow>
       analyzeRepository env url = Inl (Error (''Analysis failed: '' @ message e)))
   \<and> (\<forall>ref e. parseRepoUrl url = Inr ref
         \<and> fetchMetrics (three_months_ago env) (octokit env (owner ref) (repo ref)) = Inl e
       \<longrightarrow> analyzeRepository env url = Inl (Error (''Analysis failed: '' @ message e)))
   \<and> (\<forall>ref m. parseRepoUrl url = Inr ref
         \<and> fetchMetrics (three_months_ago env) (octokit env (owner ref) (repo ref)) = Inr m
       \<longrightarrow> analyzeRepository env url =
             Inr \<lparr>summary =
                    summary (generateAIInsights (model_reply env) m (calculateScore m)),
                  roadmap =
                    roadmap (generateAIInsights (model_reply env) m (calculateScore m)),
                  score = calculateScore m, metrics = m\<rparr>)
   \<and> (\<forall>err. analyzeRepository env url = Inl err \<longrightarrow>
         startsWith (message err) ''Analysis failed: '')"
proof -
  have a: "analyzeRepository env url = Inl (Error (''Analysis failed: '' @ message e))"
    if "parseRepoUrl url = Inl e" for e
    using that by (simp add: analyzeRepository_def analyze_body_def)
  have b: "analyzeRepository env url = Inl (Error (''Analysis failed: '' @ message e))"
    if "parseRepoUrl url = Inr ref
         \<and> fetchMetrics (three_months_ago env) (octokit env (owner ref) (repo ref)) = Inl e"
    for ref e
    using that by (simp add: analyzeRepository_def analyze_body_def)
  have c: "analyzeRepository env url =
             Inr \<lparr>summary =
                    summary (generateAIInsights (model_reply env) m (calculateScore m)),
                  roadmap =
                    roadmap (generateAIInsights (model_reply env) m (calculateScore m)),
                  score = calculateScore m, metrics = m\<rparr>"
    if "parseRepoUrl url = Inr ref
         \<and> fetchMetrics (three_months_ago env) (octokit env (owner ref) (repo ref)) = Inr m"
    for ref m
    using that by (simp add: analyzeRepository_def analyze_body_def Let_def)
  have d: "startsWith (message err) ''Analysis failed: ''"
    if "analyzeRepository env url = Inl err" for err
  proof -
    from that obtain e where "err = Error (''Analysis failed: '' @ message e)"
      by (auto simp: analyzeRepository_Inl)
    then show ?thesis
      using startsWith_append [of "''Analysis failed: ''" "message e"] by simp
  qed
  from a b c d show ?thesis by blast
qed

lemma parse_gitlab: "parseRepoUrl ''https://gitlab.com/octocat/Hello-World''
     = Inl (Error ''Invalid GitHub URL'')"
  by code_simp

lemma parse_octocat: "parseRepoUrl ''https://github.com/octocat/Hello-World''
     = Inr \<lparr>owner = ''octocat'', repo = ''Hello-World''\<rparr>"
  by code_simp

lemma parse_other: "parseRepoUrl ''https://github.com/nobody/Hello-World''
     = Inr \<lparr>owner = ''nobody'', repo = ''Hello-World''\<rparr>"
  by code_simp

lemma fetch_up: "\<exists>m. fetchMetrics 1000 api_up = Inr m"
  by (rule fetchMetrics_succeeds) (simp_all add: api_up_def)

theorem analyzeRepository_outcomes_witness:
  "analyzeRepository env_up ''https://gitlab.com/octocat/Hello-World''
     = Inl (Error ''Analysis failed: Invalid GitHub URL'')
   \<and> analyzeRepository env_up ''https://github.com/nobody/Hello-World''
     = Inl (Error ''Analysis failed: Failed to fetch metrics: rate limit exceeded'')
   \<and> (\<exists>m. fetchMetrics 1000 api_up = Inr m
        \<and> analyzeRepository env_up ''https://github.com/octocat/Hello-World''
          = Inr \<lparr>summary = summary (fallback m (calculateScore m)),
                 roadmap = roadmap (fallback m (calculateScore m)),
                 score = calculateScore m, metrics = m\<rparr>)"
proof -
  have one: "analyzeRepository env_up ''https://gitlab.com/octocat/Hello-World''
     = Inl (Error ''Analysis failed: Invalid GitHub URL'')"
    using analyzeRepository_outcomes [of "''https://gitlab.com/octocat/Hello-World''" env_up]
      parse_gitlab by simp
  have "fetchMetrics (three_months_ago env_up) (octokit env_up ''nobody'' ''Hello-World'')
     = Inl (Error ''Failed to fetch metrics: rate limit exceeded'')"
    using fetch_languages_down by (simp add: env_up_def)
  then have two: "analyzeRepository env_up ''https://github.com/nobody/Hello-World''
     = Inl (Error ''Analysis failed: Failed to fetch metrics: rate limit exceeded'')"
    using analyzeRepository_outcomes [of "''https://github.com/nobody/Hello-World''" env_up]
      parse_other by simp
  obtain m where m: "fetchMetrics 1000 api_up = Inr m"
    using fetch_up by blast
  then have "fetchMetrics (three_months_ago env_up) (octokit env_up ''octocat'' ''Hello-World'')
     = Inr m"
    by (simp add: env_up_def)
  moreover have "generateAIInsights (model_reply env_up) m (calculateScore m)
     = fallback m (calculateScore m)"
    by (simp add: generateAIInsights_def env_up_def)
  ultimately have "analyzeRepository env_up ''https://github.com/octocat/Hello-World''
          = Inr \<lparr>summary = summary (fallback m (calculateScore m)),
                 roadmap = roadmap (fallback m (calculateScore m)),
                 score = calculateScore m, metrics = m\<rparr>"
    using analyzeRepository_outcomes [of "''https://github.com/octocat/Hello-World''" env_up]
      parse_octocat by simp
  with one two m show ?thesis by blast
qed

end
